theory Spec2Isabelle
  imports Complex_Main
begin

section \<open>JavaScript values\<close>

text \<open>
  The functions of \<^verbatim>\<open>src/api/utils.js\<close> take and return untyped JavaScript values,
  so the embedding works over a datatype of values. Numbers held in values are the
  integers the file meets (status codes, epoch seconds) and \<open>NaN\<close>, which arithmetic
  on a non-number produces; the rounding of IEEE doubles is not modelled. The two numeric
  parameters of \<^verbatim>\<open>retryRequest\<close> are rationals, since the loop behaves differently when
  its bound is not whole. An object is the
  list of its own enumerable properties in the order they were added, each key once.
  \<open>JError name message\<close> is an instance of a native error class (\<^verbatim>\<open>new Error(m)\<close>, or
  an error the engine raises).
\<close>

datatype jsnum = NaN | Fin int

datatype jsval =
    JUndefined
  | JNull
  | JBool bool
  | JNum jsnum
  | JStr string
  | JArr "jsval list"
  | JObj "(string \<times> jsval) list"
  | JError string string

text \<open>
  A computation either throws a value (\<open>Inl\<close>; a rejected promise is the same thing
  for code that awaits it) or returns one (\<open>Inr\<close>).
\<close>

type_synonym 'a result = "jsval + 'a"

definition and_then :: "'a result \<Rightarrow> ('a \<Rightarrow> 'b result) \<Rightarrow> 'b result" where
  "and_then m f = (case m of Inl thrown \<Rightarrow> Inl thrown | Inr x \<Rightarrow> f x)"

text \<open>Truthiness (\<^verbatim>\<open>ToBoolean\<close>): what \<^verbatim>\<open>if (v)\<close>, \<^verbatim>\<open>v || w\<close> and \<^verbatim>\<open>!v\<close> test.\<close>

fun truthy :: "jsval \<Rightarrow> bool" where
  "truthy JUndefined = False"
| "truthy JNull = False"
| "truthy (JBool b) = b"
| "truthy (JNum NaN) = False"
| "truthy (JNum (Fin n)) = (n \<noteq> 0)"
| "truthy (JStr s) = (s \<noteq> [])"
| "truthy (JArr xs) = True"
| "truthy (JObj kvs) = True"
| "truthy (JError n m) = True"

text \<open>\<^verbatim>\<open>a || b\<close> on values already computed.\<close>

definition js_or :: "jsval \<Rightarrow> jsval \<Rightarrow> jsval" where
  "js_or a b = (if truthy a then a else b)"

definition nullish :: "jsval \<Rightarrow> bool" where
  "nullish v = (v = JUndefined \<or> v = JNull)"

subsection \<open>Conversion to a string\<close>

fun digits_of :: "nat \<Rightarrow> string" where
  "digits_of n =
     (if n < 10 then [''0123456789'' ! n]
      else digits_of (n div 10) @ [''0123456789'' ! (n mod 10)])"

declare digits_of.simps [simp del]

definition int_to_string :: "int \<Rightarrow> string" where
  "int_to_string i = (if i < 0 then CHR ''-'' # digits_of (nat (- i)) else digits_of (nat i))"

fun join_with :: "string \<Rightarrow> string list \<Rightarrow> string" where
  "join_with sep [] = []"
| "join_with sep [x] = x"
| "join_with sep (x # y # ys) = x @ sep @ join_with sep (y # ys)"

text \<open>
  \<^verbatim>\<open>ToString\<close>, as template literals and \<^verbatim>\<open>URLSearchParams.append\<close> apply it. An integer
  prints in decimal (as JavaScript prints those below \<open>10 ^ 21\<close>). An array joins its
  elements with commas, \<^verbatim>\<open>null\<close> and \<^verbatim>\<open>undefined\<close> elements as empty strings; a plain
  object is \<^verbatim>\<open>[object Object]\<close>; an error is its name, a colon and its message.
\<close>

fun ToString :: "jsval \<Rightarrow> string" where
  "ToString JUndefined = ''undefined''"
| "ToString JNull = ''null''"
| "ToString (JBool b) = (if b then ''true'' else ''false'')"
| "ToString (JNum NaN) = ''NaN''"
| "ToString (JNum (Fin n)) = int_to_string n"
| "ToString (JStr s) = s"
| "ToString (JArr xs) =
     join_with '','' (map (\<lambda>x. if x = JUndefined \<or> x = JNull then [] else ToString x) xs)"
| "ToString (JObj kvs) = ''[object Object]''"
| "ToString (JError n m) = (if m = [] then n else if n = [] then m else n @ '': '' @ m)"

subsection \<open>Reading a property\<close>

text \<open>
  The \<^verbatim>\<open>TypeError\<close> the engine raises when a property of \<^verbatim>\<open>undefined\<close> or \<^verbatim>\<open>null\<close> is
  read. The message is V8's wording; other engines word it differently, and nothing
  below depends on the wording.
\<close>

definition TypeError_read :: "jsval \<Rightarrow> string \<Rightarrow> jsval" where
  "TypeError_read v k =
     JError ''TypeError''
       (''Cannot read properties of '' @ ToString v @ '' (reading '' @ [CHR 0x27] @ k @ [CHR 0x27] @ '')'')"

definition lookup :: "(string \<times> jsval) list \<Rightarrow> string \<Rightarrow> jsval" where
  "lookup kvs k = (case map_of kvs k of None \<Rightarrow> JUndefined | Some v \<Rightarrow> v)"

text \<open>
  \<^verbatim>\<open>v.k\<close>. Reading from \<^verbatim>\<open>undefined\<close> or \<^verbatim>\<open>null\<close> throws; an object gives its property or
  \<^verbatim>\<open>undefined\<close>. The file reads only the names \<^verbatim>\<open>data\<close>, \<^verbatim>\<open>message\<close>, \<^verbatim>\<open>response\<close>,
  \<^verbatim>\<open>request\<close>, \<^verbatim>\<open>status\<close>, \<^verbatim>\<open>exp\<close>, \<^verbatim>\<open>imageUrl\<close>, \<^verbatim>\<open>videoUrl\<close> and \<^verbatim>\<open>name\<close>: none of them
  is a property of a string, number, boolean or array, so those give \<^verbatim>\<open>undefined\<close>.
\<close>

fun get_prop :: "jsval \<Rightarrow> string \<Rightarrow> jsval result" where
  "get_prop JUndefined k = Inl (TypeError_read JUndefined k)"
| "get_prop JNull k = Inl (TypeError_read JNull k)"
| "get_prop (JObj kvs) k = Inr (lookup kvs k)"
| "get_prop (JError n m) k =
     Inr (if k = ''message'' then JStr m else if k = ''name'' then JStr n else JUndefined)"
| "get_prop v k = Inr JUndefined"

text \<open>\<^verbatim>\<open>v?.k\<close>: \<^verbatim>\<open>undefined\<close> when \<open>v\<close> is \<^verbatim>\<open>undefined\<close> or \<^verbatim>\<open>null\<close>; it never throws.\<close>

definition get_opt :: "jsval \<Rightarrow> string \<Rightarrow> jsval" where
  "get_opt v k = (case get_prop v k of Inl thrown \<Rightarrow> JUndefined | Inr x \<Rightarrow> x)"

section \<open>Result envelopes\<close>

text \<open>The object literals the two normalisers return, fields in the order written.\<close>

definition envelope3 :: "bool \<Rightarrow> jsval \<Rightarrow> jsval \<Rightarrow> jsval" where
  "envelope3 ok d m = JObj [(''success'', JBool ok), (''data'', d), (''message'', m)]"

definition envelope4 :: "bool \<Rightarrow> jsval \<Rightarrow> jsval \<Rightarrow> jsval \<Rightarrow> jsval" where
  "envelope4 ok d m st =
     JObj [(''success'', JBool ok), (''data'', d), (''message'', m), (''status'', st)]"

text \<open>
  \<^verbatim>\<open>handleApiResponse\<close> (lines 2-15). \<^verbatim>\<open>response.data\<close> throws when the response is
  \<^verbatim>\<open>undefined\<close> or \<^verbatim>\<open>null\<close>; the test on it is a truthiness test.
\<close>

definition handleApiResponse :: "jsval \<Rightarrow> jsval result" where
  "handleApiResponse response =
     and_then (get_prop response ''data'') (\<lambda>d.
       if truthy d then
         and_then (get_prop d ''message'') (\<lambda>m.
           Inr (envelope3 True d (js_or m (JStr ''Success''))))
       else Inr (envelope3 False JNull (JStr ''No data received'')))"

text \<open>
  \<^verbatim>\<open>handleApiError\<close> (lines 18-46); the \<^verbatim>\<open>console.error\<close> call has no effect on the
  result and is left out. \<^verbatim>\<open>error.response\<close> throws when the error is \<^verbatim>\<open>undefined\<close> or
  \<^verbatim>\<open>null\<close>.
\<close>

definition handleApiError :: "jsval \<Rightarrow> jsval result" where
  "handleApiError error =
     and_then (get_prop error ''response'') (\<lambda>response.
       if truthy response then
         and_then (get_prop response ''data'') (\<lambda>body.
         and_then (get_prop response ''status'') (\<lambda>st.
           Inr (envelope4 False JNull
                  (js_or (get_opt body ''message'') (JStr (''Error: '' @ ToString st)))
                  st)))
       else
         and_then (get_prop error ''request'') (\<lambda>request.
           if truthy request then
             Inr (envelope4 False JNull
                    (JStr ''Network error - please check your connection'') JNull)
           else
             and_then (get_prop error ''message'') (\<lambda>m.
               Inr (envelope4 False JNull
                      (js_or m (JStr ''An unexpected error occurred'')) JNull))))"

text \<open>
  \<^verbatim>\<open>apiCall\<close> (lines 49-56). The asynchronous operation is a function of the arguments
  and of the state of the world; it returns the value its promise resolves with, or the
  value it rejects with (or throws). Both the call and \<^verbatim>\<open>handleApiResponse\<close> stand inside
  the \<^verbatim>\<open>try\<close>; \<^verbatim>\<open>handleApiError\<close> stands in the \<^verbatim>\<open>catch\<close>, so what it throws leaves
  \<^verbatim>\<open>apiCall\<close>.
\<close>

definition apiCall ::
  "(jsval list \<Rightarrow> 'w \<Rightarrow> jsval result \<times> 'w) \<Rightarrow> jsval list \<Rightarrow> 'w \<Rightarrow> jsval result \<times> 'w" where
  "apiCall apiFunction args w =
     (case apiFunction args w of
        (Inr response, w') \<Rightarrow>
          (case handleApiResponse response of
             Inr envelope \<Rightarrow> (Inr envelope, w')
           | Inl error \<Rightarrow> (handleApiError error, w'))
      | (Inl error, w') \<Rightarrow> (handleApiError error, w'))"

section \<open>Query strings\<close>

text \<open>
  \<^verbatim>\<open>URLSearchParams\<close> is a list of name-value pairs of strings; \<^verbatim>\<open>append\<close> adds a pair at
  the end, the value converted to a string. \<^verbatim>\<open>toString\<close> serialises the list as
  \<^verbatim>\<open>application/x-www-form-urlencoded\<close>: a space becomes \<^verbatim>\<open>+\<close>, letters, digits and
  \<^verbatim>\<open>* - . _\<close> stay, every other byte becomes \<^verbatim>\<open>%XX\<close>. A \<open>string\<close> holds the bytes of the
  UTF-8 encoding.
\<close>

definition urlencode_byte :: "char \<Rightarrow> string" where
  "urlencode_byte c =
     (let n = (of_char c :: nat) in
      if n = 0x20 then ''+''
      else if n = 0x2A \<or> n = 0x2D \<or> n = 0x2E \<or> n = 0x5F
              \<or> (0x30 \<le> n \<and> n \<le> 0x39) \<or> (0x41 \<le> n \<and> n \<le> 0x5A) \<or> (0x61 \<le> n \<and> n \<le> 0x7A)
           then [c]
      else [CHR ''%'', ''0123456789ABCDEF'' ! (n div 16), ''0123456789ABCDEF'' ! (n mod 16)])"

definition urlencode :: "string \<Rightarrow> string" where
  "urlencode s = concat (map urlencode_byte s)"

definition URLSearchParams_append ::
  "(string \<times> string) list \<Rightarrow> string \<Rightarrow> jsval \<Rightarrow> (string \<times> string) list" where
  "URLSearchParams_append queryParams key v = queryParams @ [(key, ToString v)]"

definition URLSearchParams_toString :: "(string \<times> string) list \<Rightarrow> string" where
  "URLSearchParams_toString queryParams =
     join_with ''&'' (map (\<lambda>(k, v). urlencode k @ ''='' @ urlencode v) queryParams)"

text \<open>
  \<^verbatim>\<open>Object.keys\<close> lists the keys that are array indices first, in ascending numeric order,
  and then the other keys in the order they were added. An array index is the decimal
  text, with no leading zero, of an integer below \<open>2 ^ 32 - 1\<close>.
\<close>

definition is_digit :: "char \<Rightarrow> bool" where
  "is_digit c = (let n = (of_char c :: nat) in 0x30 \<le> n \<and> n \<le> 0x39)"

definition decimal_value :: "string \<Rightarrow> nat" where
  "decimal_value s = foldl (\<lambda>n c. 10 * n + (of_char c - 0x30)) 0 s"

definition is_array_index :: "string \<Rightarrow> bool" where
  "is_array_index k =
     (k \<noteq> [] \<and> list_all is_digit k \<and> (length k = 1 \<or> hd k \<noteq> CHR ''0'')
      \<and> decimal_value k < 2 ^ 32 - 1)"

definition Object_keys :: "(string \<times> jsval) list \<Rightarrow> string list" where
  "Object_keys params =
     (let keys = map fst params
      in sort_key decimal_value (filter is_array_index keys)
         @ filter (\<lambda>k. \<not> is_array_index k) keys)"

text \<open>
  \<^verbatim>\<open>buildQueryParams\<close> (lines 78-88), on an object given by its properties. The loop
  over \<^verbatim>\<open>Object.keys(params)\<close> is a left fold; \<^verbatim>\<open>!==\<close> against \<^verbatim>\<open>null\<close>, \<^verbatim>\<open>undefined\<close> and
  \<^verbatim>\<open>''\<close> is inequality of values.
\<close>

definition queryParams_of :: "(string \<times> jsval) list \<Rightarrow> (string \<times> string) list" where
  "queryParams_of params =
     foldl (\<lambda>queryParams key.
              if lookup params key \<noteq> JNull \<and> lookup params key \<noteq> JUndefined
                 \<and> lookup params key \<noteq> JStr []
              then URLSearchParams_append queryParams key (lookup params key)
              else queryParams)
       [] (Object_keys params)"

definition buildQueryParams :: "(string \<times> jsval) list \<Rightarrow> string" where
  "buildQueryParams params = URLSearchParams_toString (queryParams_of params)"

section \<open>Browser storage\<close>

text \<open>
  \<^verbatim>\<open>localStorage\<close> is a map from keys to strings; \<^verbatim>\<open>getItem\<close> gives \<^verbatim>\<open>null\<close> for a key that
  is not there, \<^verbatim>\<open>removeItem\<close> returns the storage without the key.
\<close>

type_synonym storage = "string \<rightharpoonup> string"

definition getItem :: "storage \<Rightarrow> string \<Rightarrow> jsval" where
  "getItem st k = (case st k of None \<Rightarrow> JNull | Some v \<Rightarrow> JStr v)"

definition removeItem :: "storage \<Rightarrow> string \<Rightarrow> storage" where
  "removeItem st k = st(k := None)"

definition removeToken :: "storage \<Rightarrow> storage" where
  "removeToken st = removeItem st ''authToken''"

definition removeUserData :: "storage \<Rightarrow> storage" where
  "removeUserData st = removeItem st ''userData''"

text \<open>\<^verbatim>\<open>userUtils.clearAllUserData\<close> (lines 115-120): four removals in sequence.\<close>

definition clearAllUserData :: "storage \<Rightarrow> storage" where
  "clearAllUserData st =
     (let st1 = removeToken st;
          st2 = removeUserData st1;
          st3 = removeItem st2 ''cartData''
      in removeItem st3 ''wishlistData'')"

text \<open>
  What the browser provides and the repository does not define: \<^verbatim>\<open>atob\<close> and
  \<^verbatim>\<open>JSON.parse\<close>, which return or throw, and the conversion of a string to a number.
  The functions below take them as a parameter, so every theorem holds whatever they
  compute.
\<close>

record platform =
  atob :: "string \<Rightarrow> string result"
  JSON_parse :: "string \<Rightarrow> jsval result"
  StringToNumber :: "string \<Rightarrow> jsnum"

text \<open>
  \<^verbatim>\<open>userUtils.getUserData\<close> (lines 109-112): the conditional tests the stored value for
  truthiness; \<^verbatim>\<open>JSON.parse\<close> is called outside any \<^verbatim>\<open>try\<close>.
\<close>

definition getUserData :: "platform \<Rightarrow> storage \<Rightarrow> jsval result" where
  "getUserData P st =
     (let userData = getItem st ''userData'' in
      if truthy userData then JSON_parse P (ToString userData) else Inr JNull)"

section \<open>Token expiry\<close>

text \<open>\<^verbatim>\<open>s.split(c)\<close> for a one-character separator: \<^verbatim>\<open>''.split('.')\<close> is \<^verbatim>\<open>['']\<close>.\<close>

fun split_on :: "char \<Rightarrow> string \<Rightarrow> string list" where
  "split_on c [] = [[]]"
| "split_on c (x # xs) =
     (if x = c then [] # split_on c xs
      else (case split_on c xs of [] \<Rightarrow> [[x]] | p # ps \<Rightarrow> (x # p) # ps))"

text \<open>\<^verbatim>\<open>parts[i]\<close>: \<^verbatim>\<open>undefined\<close> past the end of the array.\<close>

definition element_at :: "string list \<Rightarrow> nat \<Rightarrow> jsval" where
  "element_at parts i = (if i < length parts then JStr (parts ! i) else JUndefined)"

text \<open>
  \<^verbatim>\<open>token.split('.')[1]\<close>. Only a string has a \<^verbatim>\<open>split\<close> method among the values of the
  model; calling it on anything else throws a \<^verbatim>\<open>TypeError\<close>.
\<close>

definition token_segment :: "jsval \<Rightarrow> jsval result" where
  "token_segment token =
     (case token of
        JStr s \<Rightarrow> Inr (element_at (split_on CHR ''.'' s) 1)
      | _ \<Rightarrow> Inl (JError ''TypeError'' ''token.split is not a function''))"

text \<open>
  \<^verbatim>\<open>ToNumber\<close>, applied by \<^verbatim>\<open>*\<close>: an object or array is converted to a string first.
\<close>

fun ToNumber :: "platform \<Rightarrow> jsval \<Rightarrow> jsnum" where
  "ToNumber P JUndefined = NaN"
| "ToNumber P JNull = Fin 0"
| "ToNumber P (JBool b) = Fin (if b then 1 else 0)"
| "ToNumber P (JNum n) = n"
| "ToNumber P v = StringToNumber P (ToString v)"

fun js_times :: "jsnum \<Rightarrow> jsnum \<Rightarrow> jsnum" where
  "js_times (Fin a) (Fin b) = Fin (a * b)"
| "js_times a b = NaN"

fun js_less :: "jsnum \<Rightarrow> jsnum \<Rightarrow> bool" where
  "js_less (Fin a) (Fin b) = (a < b)"
| "js_less a b = False"

text \<open>
  \<^verbatim>\<open>tokenUtils.isTokenExpired\<close> (lines 95-104); \<open>now\<close> is what \<^verbatim>\<open>Date.now()\<close> returns.
  Everything after the first test stands inside the \<^verbatim>\<open>try\<close>, and the \<^verbatim>\<open>catch\<close> returns
  \<^verbatim>\<open>true\<close> whatever was thrown. \<^verbatim>\<open>atob\<close> converts its argument to a string, so a token
  with no second segment hands it the string \<^verbatim>\<open>undefined\<close>.
\<close>

definition decode_payload :: "platform \<Rightarrow> jsval \<Rightarrow> jsval result" where
  "decode_payload P token =
     and_then (token_segment token) (\<lambda>segment.
     and_then (atob P (ToString segment)) (\<lambda>decoded.
       JSON_parse P decoded))"

definition isTokenExpired :: "platform \<Rightarrow> int \<Rightarrow> jsval \<Rightarrow> bool" where
  "isTokenExpired P now token =
     (if \<not> truthy token then True
      else
        (case and_then (decode_payload P token) (\<lambda>payload.
              and_then (get_prop payload ''exp'') (\<lambda>e.
                Inr (js_less (js_times (ToNumber P e) (Fin 1000)) (Fin now))))
         of Inl error \<Rightarrow> True
          | Inr expired \<Rightarrow> expired))"

section \<open>Retrying a request\<close>

text \<open>
  What \<^verbatim>\<open>retryRequest\<close> does to the world, in order: it invokes the operation, and it
  sleeps (\<^verbatim>\<open>setTimeout\<close>) for a number of milliseconds.
\<close>

datatype event = Invoke | Sleep rat

text \<open>
  \<^verbatim>\<open>retryRequest\<close> (lines 124-134). The operation is a function of the state of the
  world. \<open>maxRetries\<close> and \<open>delay\<close> are JavaScript numbers, which need not be whole:
  they are rationals here, as every finite double is (\<^verbatim>\<open>NaN\<close> and the infinities are not
  values of the model). The \<^verbatim>\<open>for\<close> loop is a recursion on the counter \<open>i\<close>, a
  natural number compared with \<open>maxRetries\<close> as the source compares it: \<^verbatim>\<open>i < maxRetries\<close>
  to go on, \<^verbatim>\<open>i === maxRetries - 1\<close> to throw. Falling out of the loop returns
  \<^verbatim>\<open>undefined\<close>. The defaults of the source are \<open>maxRetries = 3\<close> and \<open>delay = 1000\<close>.
\<close>

function retryRequest_loop ::
  "('w \<Rightarrow> jsval result \<times> 'w) \<Rightarrow> rat \<Rightarrow> rat \<Rightarrow> nat \<Rightarrow> 'w \<Rightarrow> event list
     \<Rightarrow> jsval result \<times> 'w \<times> event list" where
  "retryRequest_loop apiFunction maxRetries delay i w trace =
     (if of_nat i < maxRetries then
        (case apiFunction w of
           (Inr result, w') \<Rightarrow> (Inr result, w', trace @ [Invoke])
         | (Inl error, w') \<Rightarrow>
             if of_nat i = maxRetries - 1 then (Inl error, w', trace @ [Invoke])
             else retryRequest_loop apiFunction maxRetries delay (Suc i) w'
                    (trace @ [Invoke, Sleep (delay * 2 ^ i)]))
      else (Inr JUndefined, w, trace))"
  by pat_completeness auto
termination
proof (relation "measure (\<lambda>(f, maxRetries, d, i, w, t). nat \<lceil>maxRetries\<rceil> - i)")
  show "wf (measure (\<lambda>(f, maxRetries :: rat, d :: rat, i :: nat, w, t :: event list).
            nat \<lceil>maxRetries\<rceil> - i))"
    by simp
next
  fix apiFunction :: "'w \<Rightarrow> jsval result \<times> 'w" and maxRetries delay :: rat and i :: nat
    and w :: 'w and trace :: "event list" and x :: "jsval result \<times> 'w" and x1 x2 a
  assume "of_nat i < maxRetries"
  then have "int i < \<lceil>maxRetries\<rceil>"
    by (simp add: less_ceiling_iff)
  then have "i < nat \<lceil>maxRetries\<rceil>"
    by linarith
  then show "((apiFunction, maxRetries, delay, Suc i, x2, trace @ [Invoke, Sleep (delay * 2 ^ i)]),
              apiFunction, maxRetries, delay, i, w, trace)
             \<in> measure (\<lambda>(f, maxRetries, d, i, w, t). nat \<lceil>maxRetries\<rceil> - i)"
    by simp
qed

declare retryRequest_loop.simps [simp del]

definition retryRequest ::
  "('w \<Rightarrow> jsval result \<times> 'w) \<Rightarrow> rat \<Rightarrow> rat \<Rightarrow> 'w \<Rightarrow> jsval result \<times> 'w \<times> event list" where
  "retryRequest apiFunction maxRetries delay w =
     retryRequest_loop apiFunction maxRetries delay 0 w []"

section \<open>Uploads\<close>

text \<open>
  \<^verbatim>\<open>response?.data?.data?.imageUrl || response?.data?.imageUrl || response?.imageUrl\<close>,
  for the field name \<open>field\<close>.
\<close>

definition url_of :: "string \<Rightarrow> jsval \<Rightarrow> jsval" where
  "url_of field response =
     js_or (js_or (get_opt (get_opt (get_opt response ''data'') ''data'') field)
                  (get_opt (get_opt response ''data'') field))
           (get_opt response field)"

text \<open>
  The \<^verbatim>\<open>catch\<close> block of both upload functions: it logs the error, reads
  \<^verbatim>\<open>error.response?.data\<close> and \<^verbatim>\<open>error.response?.status\<close> for the log, and throws the error
  again. Reading \<^verbatim>\<open>error.response\<close> throws when the error is \<^verbatim>\<open>undefined\<close> or \<^verbatim>\<open>null\<close>.
\<close>

definition log_and_rethrow :: "jsval \<Rightarrow> jsval result" where
  "log_and_rethrow error =
     and_then (get_prop error ''response'') (\<lambda>r1.
     and_then (get_prop error ''response'') (\<lambda>r2.
       Inl error))"

text \<open>
  \<^verbatim>\<open>uploadUtils.uploadImage\<close> (lines 154-194). \<^verbatim>\<open>imageAPI.uploadSingleImage\<close> comes from
  \<^verbatim>\<open>./endpoints\<close>, which is not among the sources: it is the parameter
  \<open>uploadSingleImage\<close>, a function of the file and of the state of the world that
  resolves with a response or rejects. The progress callback is handed to it and is
  part of what it does. The \<^verbatim>\<open>try\<close> block reads \<^verbatim>\<open>file.name\<close> for the log before the
  call.
\<close>

definition uploadImage ::
  "(jsval \<Rightarrow> 'w \<Rightarrow> jsval result \<times> 'w) \<Rightarrow> jsval \<Rightarrow> 'w \<Rightarrow> jsval result \<times> 'w" where
  "uploadImage uploadSingleImage file w =
     (case get_prop file ''name'' of
        Inl error \<Rightarrow> (log_and_rethrow error, w)
      | Inr name \<Rightarrow>
          (case uploadSingleImage file w of
             (Inl error, w') \<Rightarrow> (log_and_rethrow error, w')
           | (Inr response, w') \<Rightarrow>
               (let imageUrl = url_of ''imageUrl'' response in
                if truthy imageUrl
                then (Inr (JObj [(''data'', JObj [(''imageUrl'', imageUrl)])]), w')
                else (log_and_rethrow
                        (JError ''Error'' ''Upload completed but no URL returned from server''),
                      w'))))"

text \<open>\<^verbatim>\<open>uploadUtils.uploadVideo\<close> (lines 197-237): the same with \<^verbatim>\<open>videoUrl\<close>.\<close>

definition uploadVideo ::
  "(jsval \<Rightarrow> 'w \<Rightarrow> jsval result \<times> 'w) \<Rightarrow> jsval \<Rightarrow> 'w \<Rightarrow> jsval result \<times> 'w" where
  "uploadVideo uploadSingleVideo file w =
     (case get_prop file ''name'' of
        Inl error \<Rightarrow> (log_and_rethrow error, w)
      | Inr name \<Rightarrow>
          (case uploadSingleVideo file w of
             (Inl error, w') \<Rightarrow> (log_and_rethrow error, w')
           | (Inr response, w') \<Rightarrow>
               (let videoUrl = url_of ''videoUrl'' response in
                if truthy videoUrl
                then (Inr (JObj [(''data'', JObj [(''videoUrl'', videoUrl)])]), w')
                else (log_and_rethrow
                        (JError ''Error'' ''Upload completed but no URL returned from server''),
                      w'))))"

section \<open>Vocabulary of the properties\<close>

text \<open>\<^verbatim>\<open>k in v\<close> for an object: the property is there, whatever its value.\<close>

fun has_property :: "jsval \<Rightarrow> string \<Rightarrow> bool" where
  "has_property (JObj kvs) k = (map_of kvs k \<noteq> None)"
| "has_property v k = False"

text \<open>
  An operation is called again and again from the state the previous call left.
  \<open>world_after f w k\<close> is the state after \<open>k\<close> calls, \<open>attempt f w k\<close> the outcome of
  call number \<open>k\<close>, counted from zero.
\<close>

fun world_after :: "('w \<Rightarrow> jsval result \<times> 'w) \<Rightarrow> 'w \<Rightarrow> nat \<Rightarrow> 'w" where
  "world_after f w 0 = w"
| "world_after f w (Suc k) = snd (f (world_after f w k))"

definition attempt :: "('w \<Rightarrow> jsval result \<times> 'w) \<Rightarrow> 'w \<Rightarrow> nat \<Rightarrow> jsval result" where
  "attempt f w k = fst (f (world_after f w k))"

text \<open>
  The events of the failed attempts \<open>i, \<dots>, k - 1\<close>: each invocation followed by a
  sleep of \<open>delay * 2 ^ j\<close> milliseconds.
\<close>

definition backoff :: "rat \<Rightarrow> nat \<Rightarrow> nat \<Rightarrow> event list" where
  "backoff delay i k = concat (map (\<lambda>j. [Invoke, Sleep (delay * 2 ^ j)]) [i..<k])"

definition invocations :: "event list \<Rightarrow> nat" where
  "invocations trace = length (filter (\<lambda>e. e = Invoke) trace)"

section \<open>Sample inputs\<close>

text \<open>
  Operations over a world that counts the calls made so far: one that times out twice
  and then succeeds, and one that fails every time with an error naming the attempt.
\<close>

definition failing_twice :: "nat \<Rightarrow> jsval result \<times> nat" where
  "failing_twice n =
     (if n < 2 then (Inl (JError ''Error'' ''timeout''), Suc n)
      else (Inr (JStr ''ok''), Suc n))"

definition always_failing :: "nat \<Rightarrow> jsval result \<times> nat" where
  "always_failing n = (Inl (JError ''Error'' (''attempt '' @ int_to_string (int n))), Suc n)"

text \<open>Operations that ignore their arguments and the world.\<close>

definition resolving_with :: "jsval \<Rightarrow> jsval list \<Rightarrow> unit \<Rightarrow> jsval result \<times> unit" where
  "resolving_with v args w = (Inr v, w)"

definition rejecting_with :: "jsval \<Rightarrow> jsval list \<Rightarrow> unit \<Rightarrow> jsval result \<times> unit" where
  "rejecting_with v args w = (Inl v, w)"

text \<open>Upload transports that ignore the file and the world.\<close>

definition upload_resolving :: "jsval \<Rightarrow> jsval \<Rightarrow> unit \<Rightarrow> jsval result \<times> unit" where
  "upload_resolving v file w = (Inr v, w)"

definition upload_rejecting :: "jsval \<Rightarrow> jsval \<Rightarrow> unit \<Rightarrow> jsval result \<times> unit" where
  "upload_rejecting v file w = (Inl v, w)"

text \<open>
  A platform for the examples. Its \<^verbatim>\<open>atob\<close> and \<^verbatim>\<open>JSON.parse\<close> agree with the browser's on
  the strings the examples hand them: three base64 texts and their decodings, the JSON
  texts \<^verbatim>\<open>{"exp":100}\<close> and \<^verbatim>\<open>null\<close>, and the malformed inputs \<^verbatim>\<open>undefined\<close> (not
  base64: nine characters) and \<^verbatim>\<open>not json\<close> (not JSON). On every other string they
  throw, which the browser does for malformed input only; the examples use no other
  string.
\<close>

definition sample_atob :: "string \<Rightarrow> string result" where
  \<open>sample_atob s =
     (if s = ''eyJleHAiOjEwMH0'' then Inr ''{"exp":100}''
      else if s = ''bm90IGpzb24'' then Inr ''not json''
      else if s = ''bnVsbA'' then Inr ''null''
      else Inl (JError ''InvalidCharacterError''
                  ''The string to be decoded is not correctly encoded.''))\<close>

definition sample_JSON_parse :: "string \<Rightarrow> jsval result" where
  \<open>sample_JSON_parse s =
     (if s = ''{"exp":100}'' then Inr (JObj [(''exp'', JNum (Fin 100))])
      else if s = ''null'' then Inr JNull
      else Inl (JError ''SyntaxError'' ''Unexpected token''))\<close>

definition sample_platform :: platform where
  "sample_platform =
     \<lparr>atob = sample_atob, JSON_parse = sample_JSON_parse, StringToNumber = (\<lambda>s. NaN)\<rparr>"

section \<open>Properties of \<^verbatim>\<open>clearAllUserData\<close>\<close>

text \<open>
  C9. Whatever the storage held before, after \<^verbatim>\<open>clearAllUserData\<close> none of the keys
  \<^verbatim>\<open>authToken\<close>, \<^verbatim>\<open>userData\<close>, \<^verbatim>\<open>cartData\<close> and \<^verbatim>\<open>wishlistData\<close> is in it, and
  \<^verbatim>\<open>getItem\<close> gives \<^verbatim>\<open>null\<close> for each.
\<close>

theorem clearAllUserData_removes_all_four:
  "clearAllUserData st ''authToken'' = None
   \<and> clearAllUserData st ''userData'' = None
   \<and> clearAllUserData st ''cartData'' = None
   \<and> clearAllUserData st ''wishlistData'' = None
   \<and> getItem (clearAllUserData st) ''authToken'' = JNull
   \<and> getItem (clearAllUserData st) ''userData'' = JNull
   \<and> getItem (clearAllUserData st) ''cartData'' = JNull
   \<and> getItem (clearAllUserData st) ''wishlistData'' = JNull"
  by (simp add: clearAllUserData_def removeToken_def removeUserData_def removeItem_def
      getItem_def)

text \<open>Every other key keeps what it held.\<close>

lemma clearAllUserData_frame:
  "k \<notin> {''authToken'', ''userData'', ''cartData'', ''wishlistData''}
   \<Longrightarrow> clearAllUserData st k = st k"
  by (simp add: clearAllUserData_def removeToken_def removeUserData_def removeItem_def)

section \<open>Properties of the normalisers\<close>

lemma get_prop_nullish: "nullish v \<Longrightarrow> get_prop v k = Inl (TypeError_read v k)"
  by (auto simp: nullish_def)

lemma get_prop_not_nullish: "\<not> nullish v \<Longrightarrow> get_prop v k = Inr (get_opt v k)"
  by (cases v) (auto simp: nullish_def get_opt_def)

lemma get_prop_Inr: "get_prop v k = Inr x \<Longrightarrow> \<not> nullish v \<and> get_opt v k = x"
  by (cases v) (auto simp: nullish_def get_opt_def)

lemma truthy_not_nullish: "truthy v \<Longrightarrow> \<not> nullish v"
  by (auto simp: nullish_def)

lemma handleApiResponse_not_nullish:
  "\<not> nullish response \<Longrightarrow>
   handleApiResponse response =
     (if truthy (get_opt response ''data'')
      then Inr (envelope3 True (get_opt response ''data'')
                  (js_or (get_opt (get_opt response ''data'') ''message'') (JStr ''Success'')))
      else Inr (envelope3 False JNull (JStr ''No data received'')))"
  by (simp add: handleApiResponse_def and_then_def get_prop_not_nullish truthy_not_nullish)

lemma handleApiError_not_nullish:
  "\<not> nullish error \<Longrightarrow>
   handleApiError error =
     (if truthy (get_opt error ''response'')
      then Inr (envelope4 False JNull
                  (js_or (get_opt (get_opt (get_opt error ''response'') ''data'') ''message'')
                     (JStr (''Error: '' @ ToString (get_opt (get_opt error ''response'') ''status''))))
                  (get_opt (get_opt error ''response'') ''status''))
      else if truthy (get_opt error ''request'')
      then Inr (envelope4 False JNull (JStr ''Network error - please check your connection'') JNull)
      else Inr (envelope4 False JNull
                  (js_or (get_opt error ''message'') (JStr ''An unexpected error occurred'')) JNull))"
  by (simp add: handleApiError_def and_then_def get_prop_not_nullish truthy_not_nullish)

text \<open>
  C1, as amended. For every response whose \<^verbatim>\<open>data\<close> can be read (the response is not
  \<^verbatim>\<open>undefined\<close> or \<^verbatim>\<open>null\<close>): when \<^verbatim>\<open>data\<close> is truthy, \<^verbatim>\<open>handleApiResponse\<close> returns
  success true, \<^verbatim>\<open>data\<close> itself, and as message \<^verbatim>\<open>data.message\<close> when that is truthy and
  \<^verbatim>\<open>Success\<close> otherwise; when \<^verbatim>\<open>data\<close> is missing or falsy (\<^verbatim>\<open>undefined\<close>, \<^verbatim>\<open>null\<close>, \<^verbatim>\<open>false\<close>,
  \<^verbatim>\<open>0\<close>, \<^verbatim>\<open>NaN\<close>, the empty string), it returns success false, data \<^verbatim>\<open>null\<close> and the
  message \<^verbatim>\<open>No data received\<close>.
\<close>

theorem handleApiResponse_truthy_data:
  "get_prop response ''data'' = Inr d \<Longrightarrow>
   (truthy d \<longrightarrow>
      handleApiResponse response =
        Inr (JObj [(''success'', JBool True), (''data'', d),
                   (''message'', if truthy (get_opt d ''message'') then get_opt d ''message''
                                 else JStr ''Success'')]))
   \<and> (\<not> truthy d \<longrightarrow>
      handleApiResponse response =
        Inr (JObj [(''success'', JBool False), (''data'', JNull),
                   (''message'', JStr ''No data received'')]))"
  by (auto simp: handleApiResponse_def and_then_def envelope3_def js_or_def
      get_prop_not_nullish truthy_not_nullish)

theorem handleApiResponse_truthy_data_witness:
  "handleApiResponse (JObj [(''data'', JObj [(''id'', JNum (Fin 7)), (''message'', JStr ''Created'')])]) =
     Inr (JObj [(''success'', JBool True),
                (''data'', JObj [(''id'', JNum (Fin 7)), (''message'', JStr ''Created'')]),
                (''message'', JStr ''Created'')])
   \<and> handleApiResponse (JObj [(''data'', JArr [JNum (Fin 1)])]) =
     Inr (JObj [(''success'', JBool True), (''data'', JArr [JNum (Fin 1)]),
                (''message'', JStr ''Success'')])
   \<and> handleApiResponse (JObj [(''status'', JNum (Fin 204))]) =
     Inr (JObj [(''success'', JBool False), (''data'', JNull),
                (''message'', JStr ''No data received'')])"
  using
    handleApiResponse_truthy_data
      [of "JObj [(''data'', JObj [(''id'', JNum (Fin 7)), (''message'', JStr ''Created'')])]"
          "JObj [(''id'', JNum (Fin 7)), (''message'', JStr ''Created'')]"]
    handleApiResponse_truthy_data [of "JObj [(''data'', JArr [JNum (Fin 1)])]" "JArr [JNum (Fin 1)]"]
    handleApiResponse_truthy_data [of "JObj [(''status'', JNum (Fin 204))]" JUndefined]
  by (simp add: lookup_def get_opt_def)

text \<open>
  C1 as stated fails: the response \<^verbatim>\<open>{data: 0}\<close> has a \<^verbatim>\<open>data\<close> field, and the result
  is the envelope of a response with no data.
\<close>

theorem handleApiResponse_falsy_data_counterexample:
  "has_property (JObj [(''data'', JNum (Fin 0))]) ''data''
   \<and> handleApiResponse (JObj [(''data'', JNum (Fin 0))]) =
     Inr (JObj [(''success'', JBool False), (''data'', JNull),
                (''message'', JStr ''No data received'')])"
  by (simp add: handleApiResponse_def and_then_def lookup_def envelope3_def)

text \<open>
  C5, as amended. For every error whose properties can be read (any value but
  \<^verbatim>\<open>undefined\<close> and \<^verbatim>\<open>null\<close>), \<^verbatim>\<open>handleApiError\<close> returns success false and data
  \<^verbatim>\<open>null\<close>, in one of three cases tried in order. The error carries a truthy
  \<^verbatim>\<open>response\<close>: the status is that response's \<^verbatim>\<open>status\<close>, the message is the response
  body's \<^verbatim>\<open>message\<close> when that is truthy and \<^verbatim>\<open>Error: \<close> followed by the status otherwise.
  No such response, but a truthy \<^verbatim>\<open>request\<close>: status \<^verbatim>\<open>null\<close> and the network message.
  Neither: status \<^verbatim>\<open>null\<close>, and the error's own \<^verbatim>\<open>message\<close> when that is truthy, else
  \<^verbatim>\<open>An unexpected error occurred\<close>.
\<close>

theorem handleApiError_three_cases:
  "get_prop error ''response'' = Inr response \<Longrightarrow>
   (truthy response \<longrightarrow>
      handleApiError error =
        Inr (JObj [(''success'', JBool False), (''data'', JNull),
                   (''message'',
                      if truthy (get_opt (get_opt response ''data'') ''message'')
                      then get_opt (get_opt response ''data'') ''message''
                      else JStr (''Error: '' @ ToString (get_opt response ''status''))),
                   (''status'', get_opt response ''status'')]))
   \<and> (\<not> truthy response \<and> truthy (get_opt error ''request'') \<longrightarrow>
      handleApiError error =
        Inr (JObj [(''success'', JBool False), (''data'', JNull),
                   (''message'', JStr ''Network error - please check your connection''),
                   (''status'', JNull)]))
   \<and> (\<not> truthy response \<and> \<not> truthy (get_opt error ''request'') \<longrightarrow>
      handleApiError error =
        Inr (JObj [(''success'', JBool False), (''data'', JNull),
                   (''message'',
                      if truthy (get_opt error ''message'') then get_opt error ''message''
                      else JStr ''An unexpected error occurred''),
                   (''status'', JNull)]))"
proof -
  assume r: "get_prop error ''response'' = Inr response"
  then have "\<not> nullish error" "get_opt error ''response'' = response"
    using get_prop_Inr by blast+
  then show ?thesis
    by (simp add: handleApiError_not_nullish envelope4_def js_or_def)
qed

theorem handleApiError_three_cases_witness:
  "handleApiError (JObj [(''response'', JObj [(''status'', JNum (Fin 500))])]) =
     Inr (JObj [(''success'', JBool False), (''data'', JNull),
                (''message'', JStr ''Error: 500''), (''status'', JNum (Fin 500))])
   \<and> handleApiError
       (JObj [(''response'',
               JObj [(''status'', JNum (Fin 404)), (''data'', JObj [(''message'', JStr ''x'')])])]) =
     Inr (JObj [(''success'', JBool False), (''data'', JNull),
                (''message'', JStr ''x''), (''status'', JNum (Fin 404))])
   \<and> handleApiError (JObj [(''request'', JObj [])]) =
     Inr (JObj [(''success'', JBool False), (''data'', JNull),
                (''message'', JStr ''Network error - please check your connection''),
                (''status'', JNull)])
   \<and> handleApiError (JError ''RangeError'' ''Invalid array length'') =
     Inr (JObj [(''success'', JBool False), (''data'', JNull),
                (''message'', JStr ''Invalid array length''), (''status'', JNull)])
   \<and> handleApiError (JStr ''cancelled'') =
     Inr (JObj [(''success'', JBool False), (''data'', JNull),
                (''message'', JStr ''An unexpected error occurred''), (''status'', JNull)])"
  using
    handleApiError_three_cases
      [of "JObj [(''response'', JObj [(''status'', JNum (Fin 500))])]"
          "JObj [(''status'', JNum (Fin 500))]"]
    handleApiError_three_cases
      [of "JObj [(''response'',
               JObj [(''status'', JNum (Fin 404)), (''data'', JObj [(''message'', JStr ''x'')])])]"
          "JObj [(''status'', JNum (Fin 404)), (''data'', JObj [(''message'', JStr ''x'')])]"]
    handleApiError_three_cases [of "JObj [(''request'', JObj [])]" JUndefined]
    handleApiError_three_cases [of "JError ''RangeError'' ''Invalid array length''" JUndefined]
    handleApiError_three_cases [of "JStr ''cancelled''" JUndefined]
  by (simp add: lookup_def get_opt_def int_to_string_def digits_of.simps)

text \<open>
  C5 as stated fails for the errors \<^verbatim>\<open>undefined\<close> and \<^verbatim>\<open>null\<close>, which carry neither a
  response nor a request: reading \<^verbatim>\<open>error.response\<close> throws a \<^verbatim>\<open>TypeError\<close>, and no
  envelope is returned.
\<close>

theorem handleApiError_undefined_counterexample:
  "handleApiError JUndefined = Inl (TypeError_read JUndefined ''response'')
   \<and> handleApiError JNull = Inl (TypeError_read JNull ''response'')"
  by (simp add: handleApiError_def and_then_def)

section \<open>Properties of \<^verbatim>\<open>apiCall\<close>\<close>

lemma handleApiError_TypeError:
  "handleApiError (TypeError_read v k) =
     Inr (envelope4 False JNull (JStr (''Cannot read properties of '' @ ToString v
            @ '' (reading '' @ [CHR 0x27] @ k @ [CHR 0x27] @ '')'')) JNull)"
  by (simp add: handleApiError_def and_then_def TypeError_read_def js_or_def)

text \<open>
  C4, as amended. When the operation resolves with a value other than \<^verbatim>\<open>undefined\<close> and
  \<^verbatim>\<open>null\<close>, \<^verbatim>\<open>apiCall\<close> returns the envelope \<^verbatim>\<open>handleApiResponse\<close> makes of it. When it
  resolves with \<^verbatim>\<open>undefined\<close> or \<^verbatim>\<open>null\<close>, \<^verbatim>\<open>handleApiResponse\<close> throws a \<^verbatim>\<open>TypeError\<close>
  inside the \<^verbatim>\<open>try\<close>, and \<^verbatim>\<open>apiCall\<close> returns the envelope \<^verbatim>\<open>handleApiError\<close> makes of
  that \<^verbatim>\<open>TypeError\<close>. When it rejects with a value other than \<^verbatim>\<open>undefined\<close> and \<^verbatim>\<open>null\<close>,
  \<^verbatim>\<open>apiCall\<close> returns the envelope \<^verbatim>\<open>handleApiError\<close> makes of that value. In all three
  cases \<^verbatim>\<open>apiCall\<close> returns and does not throw.
\<close>

theorem apiCall_returns_envelope:
  "(apiFunction args w = (Inr response, w') \<and> \<not> nullish response \<longrightarrow>
      (\<exists>envelope. handleApiResponse response = Inr envelope
          \<and> apiCall apiFunction args w = (Inr envelope, w')))
   \<and> (apiFunction args w = (Inr response, w') \<and> nullish response \<longrightarrow>
      (\<exists>envelope. handleApiError (TypeError_read response ''data'') = Inr envelope
          \<and> apiCall apiFunction args w = (Inr envelope, w')))
   \<and> (apiFunction args w = (Inl error, w') \<and> \<not> nullish error \<longrightarrow>
      (\<exists>envelope. handleApiError error = Inr envelope
          \<and> apiCall apiFunction args w = (Inr envelope, w')))"
proof (intro conjI impI)
  assume a: "apiFunction args w = (Inr response, w') \<and> \<not> nullish response"
  then show "\<exists>envelope. handleApiResponse response = Inr envelope
      \<and> apiCall apiFunction args w = (Inr envelope, w')"
    by (auto simp: apiCall_def handleApiResponse_not_nullish)
next
  assume a: "apiFunction args w = (Inr response, w') \<and> nullish response"
  then have "handleApiResponse response = Inl (TypeError_read response ''data'')"
    by (simp add: handleApiResponse_def and_then_def get_prop_nullish)
  with a show "\<exists>envelope. handleApiError (TypeError_read response ''data'') = Inr envelope
      \<and> apiCall apiFunction args w = (Inr envelope, w')"
    by (simp add: apiCall_def handleApiError_TypeError)
next
  assume a: "apiFunction args w = (Inl error, w') \<and> \<not> nullish error"
  then show "\<exists>envelope. handleApiError error = Inr envelope
      \<and> apiCall apiFunction args w = (Inr envelope, w')"
    by (auto simp: apiCall_def handleApiError_not_nullish)
qed

theorem apiCall_returns_envelope_witness:
  "(\<exists>envelope. handleApiResponse (JObj [(''data'', JStr ''pong'')]) = Inr envelope
      \<and> apiCall (resolving_with (JObj [(''data'', JStr ''pong'')])) [] () = (Inr envelope, ()))
   \<and> (\<exists>envelope. handleApiError (TypeError_read JUndefined ''data'') = Inr envelope
      \<and> apiCall (resolving_with JUndefined) [] () = (Inr envelope, ()))
   \<and> (\<exists>envelope. handleApiError (JObj [(''request'', JObj [])]) = Inr envelope
      \<and> apiCall (rejecting_with (JObj [(''request'', JObj [])])) [] () = (Inr envelope, ()))"
  using
    apiCall_returns_envelope
      [of "resolving_with (JObj [(''data'', JStr ''pong'')])" "[]" "()"
          "JObj [(''data'', JStr ''pong'')]" "()"]
    apiCall_returns_envelope [of "resolving_with JUndefined" "[]" "()" JUndefined "()"]
    apiCall_returns_envelope
      [of "rejecting_with (JObj [(''request'', JObj [])])" "[]" "()" _ _ "JObj [(''request'', JObj [])]"]
  by (simp add: resolving_with_def rejecting_with_def nullish_def)

text \<open>
  C4 as stated fails: an operation that rejects with \<^verbatim>\<open>undefined\<close> (\<^verbatim>\<open>Promise.reject()\<close>)
  makes \<^verbatim>\<open>handleApiError\<close> throw inside the \<^verbatim>\<open>catch\<close> block, and \<^verbatim>\<open>apiCall\<close> itself
  rejects with that \<^verbatim>\<open>TypeError\<close>. And for an operation that resolves with \<^verbatim>\<open>undefined\<close>,
  \<^verbatim>\<open>handleApiResponse\<close> has no result to return: it throws, and \<^verbatim>\<open>apiCall\<close> returns the
  envelope of that \<^verbatim>\<open>TypeError\<close>.
\<close>

theorem apiCall_rejects_counterexample:
  "apiCall (rejecting_with JUndefined) [] () = (Inl (TypeError_read JUndefined ''response''), ())
   \<and> handleApiResponse JUndefined = Inl (TypeError_read JUndefined ''data'')
   \<and> apiCall (resolving_with JUndefined) [] () =
     (Inr (JObj [(''success'', JBool False), (''data'', JNull),
                 (''message'', JStr (''Cannot read properties of undefined (reading ''
                                      @ [CHR 0x27] @ ''data'' @ [CHR 0x27] @ '')'')),
                 (''status'', JNull)]), ())"
  by (simp add: apiCall_def rejecting_with_def resolving_with_def handleApiError_def
      handleApiResponse_def and_then_def TypeError_read_def envelope4_def js_or_def)

section \<open>Properties of \<^verbatim>\<open>getUserData\<close>\<close>

text \<open>What \<^verbatim>\<open>getUserData\<close> returns when nothing is stored, or the empty string.\<close>

lemma getUserData_absent:
  "st ''userData'' = None \<or> st ''userData'' = Some [] \<Longrightarrow> getUserData P st = Inr JNull"
  by (auto simp: getUserData_def getItem_def)

lemma getUserData_parses:
  "st ''userData'' = Some s \<Longrightarrow> s \<noteq> [] \<Longrightarrow> getUserData P st = JSON_parse P s"
  by (simp add: getUserData_def getItem_def)

text \<open>
  C3. \<^verbatim>\<open>getUserData\<close> returns \<^verbatim>\<open>null\<close> for a missing key and the parsed value for a stored
  string that parses, as the two lemmas above say. For a stored string that is not empty
  and that \<^verbatim>\<open>JSON.parse\<close> rejects, it does not return \<^verbatim>\<open>null\<close>: \<^verbatim>\<open>JSON.parse\<close> stands
  outside any \<^verbatim>\<open>try\<close>, and what it throws is thrown by \<^verbatim>\<open>getUserData\<close>.
\<close>

theorem getUserData_malformed_throws:
  "st ''userData'' = Some s \<Longrightarrow> s \<noteq> [] \<Longrightarrow> JSON_parse P s = Inl thrown
   \<Longrightarrow> getUserData P st = Inl thrown"
  by (simp add: getUserData_def getItem_def)

theorem getUserData_malformed_throws_witness:
  "getUserData sample_platform [''userData'' \<mapsto> ''not json''] =
     Inl (JError ''SyntaxError'' ''Unexpected token'')"
  using getUserData_malformed_throws
    [of "[''userData'' \<mapsto> ''not json'']" "''not json''" sample_platform
        "JError ''SyntaxError'' ''Unexpected token''"]
  by (simp add: sample_platform_def sample_JSON_parse_def)

section \<open>Properties of \<^verbatim>\<open>isTokenExpired\<close>\<close>

text \<open>Decoding a string token fails when \<^verbatim>\<open>atob\<close> throws and when \<^verbatim>\<open>JSON.parse\<close> throws.\<close>

lemma decode_payload_string:
  "decode_payload P (JStr s) =
     (case atob P (ToString (element_at (split_on CHR ''.'' s) 1)) of
        Inl thrown \<Rightarrow> Inl thrown
      | Inr decoded \<Rightarrow> JSON_parse P decoded)"
  by (simp add: decode_payload_def token_segment_def and_then_def)

lemma decode_payload_not_string:
  "(\<forall>s. token \<noteq> JStr s) \<Longrightarrow> \<exists>thrown. decode_payload P token = Inl thrown"
  by (cases token) (auto simp: decode_payload_def token_segment_def and_then_def)

text \<open>
  C6. \<^verbatim>\<open>isTokenExpired\<close> returns \<^verbatim>\<open>true\<close> for a falsy token (\<^verbatim>\<open>null\<close>, \<^verbatim>\<open>undefined\<close>, the empty
  string); \<^verbatim>\<open>true\<close> when decoding the second segment throws anything, in \<^verbatim>\<open>split\<close>,
  in \<^verbatim>\<open>atob\<close> or in \<^verbatim>\<open>JSON.parse\<close>, and when the decoded payload is \<^verbatim>\<open>null\<close>, whose \<^verbatim>\<open>exp\<close>
  cannot be read; \<^verbatim>\<open>true\<close> when the payload's \<^verbatim>\<open>exp\<close> times 1000 is a number \<open>t\<close> with
  \<open>t < now\<close>; \<^verbatim>\<open>false\<close> when it is a number \<open>t\<close> with \<open>now < t\<close>. For a numeric
  \<^verbatim>\<open>exp\<close> of \<open>e\<close> seconds, \<open>t\<close> is \<open>e * 1000\<close>.
\<close>

theorem isTokenExpired_cases:
  "(\<not> truthy token \<longrightarrow> isTokenExpired P now token)
   \<and> (decode_payload P token = Inl thrown \<longrightarrow> isTokenExpired P now token)
   \<and> (token = JStr s \<and> atob P (ToString (element_at (split_on CHR ''.'' s) 1)) = Inl thrown
        \<longrightarrow> isTokenExpired P now token)
   \<and> (token = JStr s \<and> atob P (ToString (element_at (split_on CHR ''.'' s) 1)) = Inr decoded
        \<and> JSON_parse P decoded = Inl thrown
        \<longrightarrow> isTokenExpired P now token)
   \<and> (decode_payload P token = Inr payload \<and> nullish payload
        \<longrightarrow> isTokenExpired P now token)
   \<and> (decode_payload P token = Inr payload \<and> get_prop payload ''exp'' = Inr x
        \<and> js_times (ToNumber P x) (Fin 1000) = Fin t \<and> t < now
        \<longrightarrow> isTokenExpired P now token)
   \<and> (truthy token \<and> decode_payload P token = Inr payload \<and> get_prop payload ''exp'' = Inr x
        \<and> js_times (ToNumber P x) (Fin 1000) = Fin t \<and> now < t
        \<longrightarrow> \<not> isTokenExpired P now token)
   \<and> js_times (ToNumber P (JNum (Fin e))) (Fin 1000) = Fin (e * 1000)"
  by (auto simp: isTokenExpired_def and_then_def decode_payload_string get_prop_nullish)

theorem isTokenExpired_cases_witness:
  "isTokenExpired sample_platform 150000 JNull
   \<and> isTokenExpired sample_platform 150000 (JStr [])
   \<and> isTokenExpired sample_platform 150000 (JNum (Fin 7))
   \<and> isTokenExpired sample_platform 150000 (JStr ''garbage'')
   \<and> isTokenExpired sample_platform 150000 (JStr ''h.bm90IGpzb24.s'')
   \<and> isTokenExpired sample_platform 150000 (JStr ''h.bnVsbA.s'')
   \<and> isTokenExpired sample_platform 150000 (JStr ''h.eyJleHAiOjEwMH0.s'')
   \<and> \<not> isTokenExpired sample_platform 50000 (JStr ''h.eyJleHAiOjEwMH0.s'')"
proof -
  let ?P = sample_platform
  let ?thrown = "JError ''InvalidCharacterError''
      ''The string to be decoded is not correctly encoded.''"
  let ?unparsed = "JError ''SyntaxError'' ''Unexpected token''"
  let ?payload = "JObj [(''exp'', JNum (Fin 100))]"
  have P: "atob ?P = sample_atob" "JSON_parse ?P = sample_JSON_parse"
    by (simp_all add: sample_platform_def)
  have d1: "decode_payload ?P (JNum (Fin 7)) = Inl (JError ''TypeError'' ''token.split is not a function'')"
    by (simp add: decode_payload_def token_segment_def and_then_def)
  have a2: "atob ?P (ToString (element_at (split_on CHR ''.'' ''garbage'') 1)) = Inl ?thrown"
    by (simp add: P sample_atob_def element_at_def)
  have a3: "atob ?P (ToString (element_at (split_on CHR ''.'' ''h.bm90IGpzb24.s'') 1)) = Inr ''not json''"
    "JSON_parse ?P ''not json'' = Inl ?unparsed"
    by (simp_all add: P sample_atob_def sample_JSON_parse_def element_at_def)
  have d4: "decode_payload ?P (JStr ''h.bnVsbA.s'') = Inr JNull"
    by (simp add: decode_payload_string P sample_atob_def sample_JSON_parse_def element_at_def)
  have d5: "decode_payload ?P (JStr ''h.eyJleHAiOjEwMH0.s'') = Inr ?payload"
    by (simp add: decode_payload_string P sample_atob_def sample_JSON_parse_def element_at_def)
  have e5: "get_prop ?payload ''exp'' = Inr (JNum (Fin 100))"
    by (simp add: lookup_def)
  show ?thesis
    using isTokenExpired_cases [where token = JNull and P = ?P and now = 150000]
      isTokenExpired_cases [where token = "JStr []" and P = ?P and now = 150000]
      isTokenExpired_cases [where token = "JNum (Fin 7)" and P = ?P and now = 150000] d1
      isTokenExpired_cases [where token = "JStr ''garbage''" and P = ?P and now = 150000
        and s = "''garbage''" and thrown = ?thrown] a2
      isTokenExpired_cases [where token = "JStr ''h.bm90IGpzb24.s''" and P = ?P and now = 150000
        and s = "''h.bm90IGpzb24.s''" and decoded = "''not json''" and thrown = ?unparsed] a3
      isTokenExpired_cases [where token = "JStr ''h.bnVsbA.s''" and P = ?P and now = 150000
        and payload = JNull] d4
      isTokenExpired_cases [where token = "JStr ''h.eyJleHAiOjEwMH0.s''" and P = ?P
        and now = 150000 and payload = ?payload and x = "JNum (Fin 100)" and t = 100000] d5 e5
      isTokenExpired_cases [where token = "JStr ''h.eyJleHAiOjEwMH0.s''" and P = ?P
        and now = 50000 and payload = ?payload and x = "JNum (Fin 100)" and t = 100000]
    by (simp add: nullish_def)
qed

section \<open>Properties of \<^verbatim>\<open>buildQueryParams\<close>\<close>

lemma foldl_append_if:
  "foldl (\<lambda>acc k. if keep k then acc @ [g k] else acc) acc ks = acc @ map g (filter keep ks)"
  by (induction ks arbitrary: acc) simp_all

lemma queryParams_of_keys:
  "queryParams_of params =
     map (\<lambda>k. (k, ToString (lookup params k)))
       (filter (\<lambda>k. lookup params k \<noteq> JNull \<and> lookup params k \<noteq> JUndefined
                    \<and> lookup params k \<noteq> JStr [])
          (Object_keys params))"
  unfolding queryParams_of_def URLSearchParams_append_def
  by (simp add: foldl_append_if)

lemma Object_keys_no_index:
  "list_all (\<lambda>k. \<not> is_array_index k) (map fst params) \<Longrightarrow> Object_keys params = map fst params"
proof -
  assume a: "list_all (\<lambda>k. \<not> is_array_index k) (map fst params)"
  then have "filter is_array_index (map fst params) = []"
    by (simp add: list_all_iff filter_empty_conv)
  moreover from a have "filter (\<lambda>k. \<not> is_array_index k) (map fst params) = map fst params"
    by (simp add: list_all_iff filter_id_conv)
  ultimately show ?thesis
    by (simp add: Object_keys_def)
qed

lemma lookup_distinct:
  "distinct (map fst params) \<Longrightarrow> (k, v) \<in> set params \<Longrightarrow> lookup params k = v"
  by (simp add: lookup_def)

lemma queryParams_of_insertion_order:
  assumes "distinct (map fst params)"
    and "list_all (\<lambda>k. \<not> is_array_index k) (map fst params)"
  shows "queryParams_of params =
     map (\<lambda>(k, v). (k, ToString v))
       (filter (\<lambda>(k, v). v \<noteq> JNull \<and> v \<noteq> JUndefined \<and> v \<noteq> JStr []) params)"
proof -
  have f: "filter ((\<lambda>k. lookup params k \<noteq> JNull \<and> lookup params k \<noteq> JUndefined
                    \<and> lookup params k \<noteq> JStr []) \<circ> fst) params =
           filter (\<lambda>(k, v). v \<noteq> JNull \<and> v \<noteq> JUndefined \<and> v \<noteq> JStr []) params"
    using assms(1) by (intro filter_cong) (auto simp: lookup_distinct)
  have m: "map ((\<lambda>k. (k, ToString (lookup params k))) \<circ> fst) xs =
           map (\<lambda>(k, v). (k, ToString v)) xs" if "set xs \<subseteq> set params" for xs
    using assms(1) that by (intro map_cong) (auto simp: lookup_distinct)
  show ?thesis
    unfolding queryParams_of_keys Object_keys_no_index [OF assms(2)] filter_map map_map f
    by (rule m) simp
qed

text \<open>
  C8, as amended. \<^verbatim>\<open>buildQueryParams\<close> appends exactly the keys whose value is not
  \<^verbatim>\<open>null\<close>, not \<^verbatim>\<open>undefined\<close> and not the empty string, in the order \<^verbatim>\<open>Object.keys\<close> lists
  the record's keys, and returns them URL-encoded as \<^verbatim>\<open>key=value\<close> joined by \<^verbatim>\<open>&\<close>. For a
  record none of whose keys is an array index, that order is the order of insertion.
\<close>

theorem buildQueryParams_keeps_nonempty:
  "map fst (queryParams_of params) =
     filter (\<lambda>k. lookup params k \<noteq> JNull \<and> lookup params k \<noteq> JUndefined
                  \<and> lookup params k \<noteq> JStr [])
       (Object_keys params)
   \<and> buildQueryParams params =
     join_with ''&''
       (map (\<lambda>k. urlencode k @ ''='' @ urlencode (ToString (lookup params k)))
          (filter (\<lambda>k. lookup params k \<noteq> JNull \<and> lookup params k \<noteq> JUndefined
                       \<and> lookup params k \<noteq> JStr [])
             (Object_keys params)))
   \<and> (distinct (map fst params) \<and> list_all (\<lambda>k. \<not> is_array_index k) (map fst params) \<longrightarrow>
        map fst (queryParams_of params) =
          map fst (filter (\<lambda>(k, v). v \<noteq> JNull \<and> v \<noteq> JUndefined \<and> v \<noteq> JStr []) params)
        \<and> buildQueryParams params =
          join_with ''&''
            (map (\<lambda>(k, v). urlencode k @ ''='' @ urlencode (ToString v))
               (filter (\<lambda>(k, v). v \<noteq> JNull \<and> v \<noteq> JUndefined \<and> v \<noteq> JStr []) params)))"
proof (intro conjI impI)
  show "map fst (queryParams_of params) =
     filter (\<lambda>k. lookup params k \<noteq> JNull \<and> lookup params k \<noteq> JUndefined
                  \<and> lookup params k \<noteq> JStr [])
       (Object_keys params)"
    unfolding queryParams_of_keys by (simp add: comp_def)
  show "buildQueryParams params =
     join_with ''&''
       (map (\<lambda>k. urlencode k @ ''='' @ urlencode (ToString (lookup params k)))
          (filter (\<lambda>k. lookup params k \<noteq> JNull \<and> lookup params k \<noteq> JUndefined
                       \<and> lookup params k \<noteq> JStr [])
             (Object_keys params)))"
    unfolding buildQueryParams_def URLSearchParams_toString_def queryParams_of_keys
    by (simp add: comp_def)
next
  assume a: "distinct (map fst params) \<and> list_all (\<lambda>k. \<not> is_array_index k) (map fst params)"
  let ?kept = "filter (\<lambda>(k, v). v \<noteq> JNull \<and> v \<noteq> JUndefined \<and> v \<noteq> JStr []) params"
  have keys: "map fst (map (\<lambda>(k, v). (k, ToString v)) xs) = map fst xs"
    for xs :: "(string \<times> jsval) list"
    by (induction xs) auto
  have pairs: "map (\<lambda>(k, v). urlencode k @ ''='' @ urlencode v) (map (\<lambda>(k, v). (k, ToString v)) xs) =
        map (\<lambda>(k, v). urlencode k @ ''='' @ urlencode (ToString v)) xs"
    for xs :: "(string \<times> jsval) list"
    by (induction xs) auto
  have q: "queryParams_of params = map (\<lambda>(k, v). (k, ToString v)) ?kept"
    using a by (intro queryParams_of_insertion_order) simp_all
  show "map fst (queryParams_of params) = map fst ?kept"
    unfolding q by (rule keys)
  show "buildQueryParams params =
      join_with ''&'' (map (\<lambda>(k, v). urlencode k @ ''='' @ urlencode (ToString v)) ?kept)"
    unfolding buildQueryParams_def URLSearchParams_toString_def q pairs ..
qed

lemma not_array_index_letter:
  "\<not> is_array_index ''a''" "\<not> is_array_index ''b''" "\<not> is_array_index ''c''"
  "\<not> is_array_index ''d''"
  by (simp_all add: is_array_index_def is_digit_def)

text \<open>The example of the claim: \<^verbatim>\<open>{a: 1, b: '', c: null, d: 'x'}\<close> keeps \<^verbatim>\<open>a\<close> and \<^verbatim>\<open>d\<close>.\<close>

theorem buildQueryParams_keeps_nonempty_witness:
  "map fst (queryParams_of
       [(''a'', JNum (Fin 1)), (''b'', JStr []), (''c'', JNull), (''d'', JStr ''x'')]) =
     [''a'', ''d'']
   \<and> buildQueryParams
       [(''a'', JNum (Fin 1)), (''b'', JStr []), (''c'', JNull), (''d'', JStr ''x'')] =
     ''a=1&d=x''"
proof -
  let ?params = "[(''a'', JNum (Fin 1)), (''b'', JStr []), (''c'', JNull), (''d'', JStr ''x'')]"
  have h: "distinct (map fst ?params) \<and> list_all (\<lambda>k. \<not> is_array_index k) (map fst ?params)"
    by (simp add: not_array_index_letter)
  from buildQueryParams_keeps_nonempty [of ?params] h
  have "map fst (queryParams_of ?params) =
          map fst (filter (\<lambda>(k, v). v \<noteq> JNull \<and> v \<noteq> JUndefined \<and> v \<noteq> JStr []) ?params)
        \<and> buildQueryParams ?params =
          join_with ''&''
            (map (\<lambda>(k, v). urlencode k @ ''='' @ urlencode (ToString v))
               (filter (\<lambda>(k, v). v \<noteq> JNull \<and> v \<noteq> JUndefined \<and> v \<noteq> JStr []) ?params))"
    by blast
  then show ?thesis
    by (simp add: urlencode_def urlencode_byte_def int_to_string_def digits_of.simps)
qed

text \<open>
  C8 as stated fails for a record with a key that is an array index: in
  \<^verbatim>\<open>{b: 1, 2: 'x'}\<close> the key \<^verbatim>\<open>b\<close> was inserted first, and \<^verbatim>\<open>Object.keys\<close> lists \<^verbatim>\<open>2\<close>
  first.
\<close>

theorem buildQueryParams_order_counterexample:
  "map fst (queryParams_of [(''b'', JNum (Fin 1)), (''2'', JStr ''x'')]) = [''2'', ''b'']
   \<and> buildQueryParams [(''b'', JNum (Fin 1)), (''2'', JStr ''x'')] = ''2=x&b=1''"
proof -
  have i: "is_array_index ''2''" "\<not> is_array_index ''b''"
    by (simp_all add: is_array_index_def is_digit_def decimal_value_def)
  have k: "Object_keys [(''b'', JNum (Fin 1)), (''2'', JStr ''x'')] = [''2'', ''b'']"
    by (simp add: Object_keys_def i)
  show ?thesis
    unfolding buildQueryParams_def URLSearchParams_toString_def queryParams_of_keys k
    by (simp add: lookup_def urlencode_def urlencode_byte_def int_to_string_def digits_of.simps)
qed

section \<open>Properties of the upload functions\<close>

lemma log_and_rethrow_not_nullish: "\<not> nullish error \<Longrightarrow> log_and_rethrow error = Inl error"
  by (simp add: log_and_rethrow_def and_then_def get_prop_not_nullish)

lemma url_of_first_truthy:
  "url_of field response =
     (if truthy (get_opt (get_opt (get_opt response ''data'') ''data'') field)
      then get_opt (get_opt (get_opt response ''data'') ''data'') field
      else if truthy (get_opt (get_opt response ''data'') field)
      then get_opt (get_opt response ''data'') field
      else get_opt response field)"
  by (simp add: url_of_def js_or_def)

text \<open>
  C7, as amended. Let the file be one whose \<^verbatim>\<open>name\<close> can be read. When the transport
  resolves with a response, \<^verbatim>\<open>uploadImage\<close> looks at \<^verbatim>\<open>response.data.data.imageUrl\<close>,
  \<^verbatim>\<open>response.data.imageUrl\<close> and \<^verbatim>\<open>response.imageUrl\<close> in this order, each read with
  \<^verbatim>\<open>?.\<close>, and returns \<^verbatim>\<open>{data: {imageUrl}}\<close> with the first that is truthy; when none is,
  it throws the error \<^verbatim>\<open>Upload completed but no URL returned from server\<close> and returns
  nothing. When the transport rejects with a value other than \<^verbatim>\<open>undefined\<close> and \<^verbatim>\<open>null\<close>,
  \<^verbatim>\<open>uploadImage\<close> throws that same value. \<^verbatim>\<open>uploadVideo\<close> does the same with
  \<^verbatim>\<open>videoUrl\<close>.
\<close>

theorem upload_url_or_rethrow:
  "get_prop file ''name'' = Inr name \<Longrightarrow>
   (uploadSingleImage file w = (Inr response, w') \<longrightarrow>
      uploadImage uploadSingleImage file w =
        (if truthy (get_opt (get_opt (get_opt response ''data'') ''data'') ''imageUrl'')
         then Inr (JObj [(''data'', JObj [(''imageUrl'',
                 get_opt (get_opt (get_opt response ''data'') ''data'') ''imageUrl'')])])
         else if truthy (get_opt (get_opt response ''data'') ''imageUrl'')
         then Inr (JObj [(''data'', JObj [(''imageUrl'',
                 get_opt (get_opt response ''data'') ''imageUrl'')])])
         else if truthy (get_opt response ''imageUrl'')
         then Inr (JObj [(''data'', JObj [(''imageUrl'', get_opt response ''imageUrl'')])])
         else Inl (JError ''Error'' ''Upload completed but no URL returned from server''),
         w'))
   \<and> (uploadSingleImage file w = (Inl error, w') \<and> \<not> nullish error \<longrightarrow>
      uploadImage uploadSingleImage file w = (Inl error, w'))
   \<and> (uploadSingleVideo file w = (Inr response, w') \<longrightarrow>
      uploadVideo uploadSingleVideo file w =
        (if truthy (get_opt (get_opt (get_opt response ''data'') ''data'') ''videoUrl'')
         then Inr (JObj [(''data'', JObj [(''videoUrl'',
                 get_opt (get_opt (get_opt response ''data'') ''data'') ''videoUrl'')])])
         else if truthy (get_opt (get_opt response ''data'') ''videoUrl'')
         then Inr (JObj [(''data'', JObj [(''videoUrl'',
                 get_opt (get_opt response ''data'') ''videoUrl'')])])
         else if truthy (get_opt response ''videoUrl'')
         then Inr (JObj [(''data'', JObj [(''videoUrl'', get_opt response ''videoUrl'')])])
         else Inl (JError ''Error'' ''Upload completed but no URL returned from server''),
         w'))
   \<and> (uploadSingleVideo file w = (Inl error, w') \<and> \<not> nullish error \<longrightarrow>
      uploadVideo uploadSingleVideo file w = (Inl error, w'))"
proof -
  assume n: "get_prop file ''name'' = Inr name"
  have e: "log_and_rethrow (JError ''Error'' ''Upload completed but no URL returned from server'') =
      Inl (JError ''Error'' ''Upload completed but no URL returned from server'')"
    by (simp add: log_and_rethrow_not_nullish nullish_def)
  show ?thesis
    by (simp add: uploadImage_def uploadVideo_def n e url_of_first_truthy
        log_and_rethrow_not_nullish)
qed

theorem upload_url_or_rethrow_witness:
  "uploadImage (upload_resolving (JObj [(''data'', JObj [(''data'', JObj [(''imageUrl'', JStr ''https://cdn/a.png'')])])]))
       (JObj [(''name'', JStr ''a.png'')]) () =
     (Inr (JObj [(''data'', JObj [(''imageUrl'', JStr ''https://cdn/a.png'')])]), ())
   \<and> uploadImage (upload_resolving (JObj [(''imageUrl'', JStr ''https://cdn/b.png'')]))
       (JObj [(''name'', JStr ''b.png'')]) () =
     (Inr (JObj [(''data'', JObj [(''imageUrl'', JStr ''https://cdn/b.png'')])]), ())
   \<and> uploadImage (upload_resolving (JObj [(''data'', JObj [(''ok'', JBool True)])]))
       (JObj [(''name'', JStr ''c.png'')]) () =
     (Inl (JError ''Error'' ''Upload completed but no URL returned from server''), ())
   \<and> uploadImage (upload_rejecting (JObj [(''request'', JObj [])]))
       (JObj [(''name'', JStr ''d.png'')]) () =
     (Inl (JObj [(''request'', JObj [])]), ())
   \<and> uploadVideo (upload_resolving (JObj [(''data'', JObj [(''videoUrl'', JStr ''https://cdn/v.mp4'')])]))
       (JObj [(''name'', JStr ''v.mp4'')]) () =
     (Inr (JObj [(''data'', JObj [(''videoUrl'', JStr ''https://cdn/v.mp4'')])]), ())
   \<and> uploadVideo (upload_rejecting (JError ''Error'' ''Network Error''))
       (JObj [(''name'', JStr ''w.mp4'')]) () =
     (Inl (JError ''Error'' ''Network Error''), ())"
  using
    upload_url_or_rethrow
      [where ?file = "JObj [(''name'', JStr ''a.png'')]" and name = "JStr ''a.png''" and w = "()"
         and w' = "()"
         and uploadSingleImage = "upload_resolving (JObj [(''data'', JObj [(''data'', JObj [(''imageUrl'', JStr ''https://cdn/a.png'')])])])"
         and response = "JObj [(''data'', JObj [(''data'', JObj [(''imageUrl'', JStr ''https://cdn/a.png'')])])]"]
    upload_url_or_rethrow
      [where ?file = "JObj [(''name'', JStr ''b.png'')]" and name = "JStr ''b.png''" and w = "()"
         and w' = "()"
         and uploadSingleImage = "upload_resolving (JObj [(''imageUrl'', JStr ''https://cdn/b.png'')])"
         and response = "JObj [(''imageUrl'', JStr ''https://cdn/b.png'')]"]
    upload_url_or_rethrow
      [where ?file = "JObj [(''name'', JStr ''c.png'')]" and name = "JStr ''c.png''" and w = "()"
         and w' = "()"
         and uploadSingleImage = "upload_resolving (JObj [(''data'', JObj [(''ok'', JBool True)])])"
         and response = "JObj [(''data'', JObj [(''ok'', JBool True)])]"]
    upload_url_or_rethrow
      [where ?file = "JObj [(''name'', JStr ''d.png'')]" and name = "JStr ''d.png''" and w = "()"
         and w' = "()"
         and uploadSingleImage = "upload_rejecting (JObj [(''request'', JObj [])])"
         and error = "JObj [(''request'', JObj [])]"]
    upload_url_or_rethrow
      [where ?file = "JObj [(''name'', JStr ''v.mp4'')]" and name = "JStr ''v.mp4''" and w = "()"
         and w' = "()"
         and uploadSingleVideo = "upload_resolving (JObj [(''data'', JObj [(''videoUrl'', JStr ''https://cdn/v.mp4'')])])"
         and response = "JObj [(''data'', JObj [(''videoUrl'', JStr ''https://cdn/v.mp4'')])]"]
    upload_url_or_rethrow
      [where ?file = "JObj [(''name'', JStr ''w.mp4'')]" and name = "JStr ''w.mp4''" and w = "()"
         and w' = "()"
         and uploadSingleVideo = "upload_rejecting (JError ''Error'' ''Network Error'')"
         and error = "JError ''Error'' ''Network Error''"]
  by (simp add: upload_resolving_def upload_rejecting_def lookup_def get_opt_def nullish_def)

text \<open>
  C7 as stated fails for a transport that rejects with \<^verbatim>\<open>undefined\<close>: the \<^verbatim>\<open>catch\<close> block
  reads \<^verbatim>\<open>error.response\<close> for its log before it throws the error again, the read
  throws a \<^verbatim>\<open>TypeError\<close>, and the caller gets that instead of the transport's failure.
\<close>

theorem upload_rethrow_counterexample:
  "uploadImage (upload_rejecting JUndefined) (JObj [(''name'', JStr ''a.png'')]) () =
     (Inl (TypeError_read JUndefined ''response''), ())
   \<and> uploadVideo (upload_rejecting JUndefined) (JObj [(''name'', JStr ''v.mp4'')]) () =
     (Inl (TypeError_read JUndefined ''response''), ())
   \<and> TypeError_read JUndefined ''response'' \<noteq> JUndefined"
  by (simp add: uploadImage_def uploadVideo_def upload_rejecting_def log_and_rethrow_def
      and_then_def lookup_def TypeError_read_def)

section \<open>Properties of \<^verbatim>\<open>retryRequest\<close>\<close>

lemma backoff_step:
  "i < k \<Longrightarrow> [Invoke, Sleep (d * 2 ^ i)] @ backoff d (Suc i) k = backoff d i k"
  by (simp add: backoff_def upt_conv_Cons)

lemma invocations_backoff: "invocations (backoff d i k @ [Invoke]) = Suc (k - i)"
proof -
  have "length (filter (\<lambda>e. e = Invoke) (concat (map (\<lambda>j. [Invoke, Sleep (d * 2 ^ j)]) js)))
        = length js" for js
    by (induction js) auto
  then show ?thesis
    by (simp add: invocations_def backoff_def)
qed

lemma attempt_failed:
  assumes "isl (attempt f w j)"
  obtains e w' where "f (world_after f w j) = (Inl e, w')"
  using assms by (cases "f (world_after f w j)") (auto simp: attempt_def isl_def)

lemma attempt_succeeded:
  assumes "\<not> isl (attempt f w j)"
  obtains r w' where "f (world_after f w j) = (Inr r, w')"
  using assms by (cases "f (world_after f w j)"; cases "fst (f (world_after f w j))")
    (auto simp: attempt_def)

text \<open>
  The loop entered at counter \<open>i\<close>, when every attempt from \<open>i\<close> to the last allowed
  one fails: it stops at the last attempt and throws what that attempt threw.
\<close>

lemma retryRequest_loop_exhausted:
  "m = of_nat (Suc k) \<Longrightarrow> i \<le> k \<Longrightarrow> (\<forall>j. i \<le> j \<and> j \<le> k \<longrightarrow> isl (attempt f w j)) \<Longrightarrow>
   retryRequest_loop f m d i (world_after f w i) tr =
     (attempt f w k, world_after f w (Suc k), tr @ backoff d i k @ [Invoke])"
proof (induction "k - i" arbitrary: i tr)
  case 0
  then have ik: "i = k" by simp
  from 0 have "isl (attempt f w k)" by blast
  then obtain e w' where w': "f (world_after f w k) = (Inl e, w')"
    by (rule attempt_failed)
  have last: "of_nat k < m" "of_nat k = m - 1"
    using 0 by simp_all
  show ?case using last ik w'
    by (subst retryRequest_loop.simps) (simp add: attempt_def backoff_def)
next
  case (Suc n)
  then have lt: "i < k" by simp
  from Suc.prems have "isl (attempt f w i)" by blast
  then obtain e w' where w': "f (world_after f w i) = (Inl e, w')"
    by (rule attempt_failed)
  have wa: "world_after f w (Suc i) = w'" using w' by simp
  have IH: "retryRequest_loop f m d (Suc i) (world_after f w (Suc i))
              (tr @ [Invoke, Sleep (d * 2 ^ i)]) =
            (attempt f w k, world_after f w (Suc k),
             (tr @ [Invoke, Sleep (d * 2 ^ i)]) @ backoff d (Suc i) k @ [Invoke])"
    using Suc.hyps(1)[of "Suc i"] Suc.hyps(2) Suc.prems lt by auto
  have ne: "of_nat i \<noteq> m - 1" "of_nat i < m" using lt Suc.prems by simp_all
  show ?case
    using ne w' IH wa backoff_step[OF lt, of d]
    by (subst retryRequest_loop.simps) simp
qed

text \<open>
  The loop entered at counter \<open>i\<close>, when the attempts before \<open>k\<close> fail and attempt
  \<open>k\<close> succeeds within the bound: it returns what attempt \<open>k\<close> returned.
\<close>

lemma retryRequest_loop_first_success:
  "of_nat k < m \<Longrightarrow> i \<le> k \<Longrightarrow> (\<forall>j. i \<le> j \<and> j < k \<longrightarrow> isl (attempt f w j)) \<Longrightarrow>
   \<not> isl (attempt f w k) \<Longrightarrow>
   retryRequest_loop f m d i (world_after f w i) tr =
     (attempt f w k, world_after f w (Suc k), tr @ backoff d i k @ [Invoke])"
proof (induction "k - i" arbitrary: i tr)
  case 0
  then have ik: "i = k" by simp
  from 0 obtain r w' where w': "f (world_after f w k) = (Inr r, w')"
    by (meson attempt_succeeded)
  show ?case using 0 ik w'
    by (subst retryRequest_loop.simps) (simp add: attempt_def backoff_def)
next
  case (Suc n)
  then have lt: "i < k" by simp
  from Suc.prems lt have "isl (attempt f w i)" by blast
  then obtain e w' where w': "f (world_after f w i) = (Inl e, w')"
    by (rule attempt_failed)
  have wa: "world_after f w (Suc i) = w'" using w' by simp
  have IH: "retryRequest_loop f m d (Suc i) (world_after f w (Suc i))
              (tr @ [Invoke, Sleep (d * 2 ^ i)]) =
            (attempt f w k, world_after f w (Suc k),
             (tr @ [Invoke, Sleep (d * 2 ^ i)]) @ backoff d (Suc i) k @ [Invoke])"
    using Suc.hyps(1)[of "Suc i"] Suc.hyps(2) Suc.prems lt by auto
  from lt have "Suc i \<le> k" by simp
  then have "(of_nat (Suc i) :: rat) \<le> of_nat k" by (rule of_nat_mono)
  then have "(of_nat i :: rat) + 1 \<le> of_nat k" by simp
  with Suc.prems(1) have ne: "of_nat i \<noteq> m - 1" "of_nat i < m" by linarith+
  show ?case
    using ne w' IH wa backoff_step[OF lt, of d]
    by (subst retryRequest_loop.simps) simp
qed

text \<open>
  The loop entered at counter \<open>i\<close>, when \<open>maxRetries\<close> is positive and not a whole
  number and every attempt below it fails: the test \<^verbatim>\<open>i === maxRetries - 1\<close> never holds,
  so the loop sleeps after every failure, runs out and returns \<^verbatim>\<open>undefined\<close>.
\<close>

lemma retryRequest_loop_fractional:
  "m \<notin> \<int> \<Longrightarrow> n = nat \<lceil>m\<rceil> \<Longrightarrow> i \<le> n \<Longrightarrow> (\<forall>j. i \<le> j \<and> j < n \<longrightarrow> isl (attempt f w j)) \<Longrightarrow>
   retryRequest_loop f m d i (world_after f w i) tr =
     (Inr JUndefined, world_after f w n, tr @ backoff d i n)"
proof (induction "n - i" arbitrary: i tr)
  case 0
  then have "i = n" by simp
  have "\<lceil>m\<rceil> \<le> int (nat \<lceil>m\<rceil>)" by linarith
  then have "(of_int \<lceil>m\<rceil> :: rat) \<le> of_nat (nat \<lceil>m\<rceil>)"
    by (metis of_int_le_iff of_int_of_nat_eq)
  then have "m \<le> of_nat (nat \<lceil>m\<rceil>)"
    using le_of_int_ceiling [of m] by (rule order_trans [rotated])
  with 0 \<open>i = n\<close> have "\<not> of_nat i < m" by simp
  with \<open>i = n\<close> show ?case
    by (subst retryRequest_loop.simps) (simp add: backoff_def)
next
  case (Suc x)
  then have lt: "i < n" by simp
  with Suc.prems have "int i < \<lceil>m\<rceil>" by linarith
  then have lm: "of_nat i < m" by (simp add: less_ceiling_iff)
  have "m - 1 \<notin> \<int>"
    using Suc.prems(1) by (metis Ints_1 Ints_add diff_add_cancel)
  then have ne: "of_nat i \<noteq> m - 1"
    by (metis Ints_of_nat)
  from Suc.prems lt have "isl (attempt f w i)" by blast
  then obtain e w' where w': "f (world_after f w i) = (Inl e, w')"
    by (rule attempt_failed)
  have wa: "world_after f w (Suc i) = w'" using w' by simp
  have IH: "retryRequest_loop f m d (Suc i) (world_after f w (Suc i))
              (tr @ [Invoke, Sleep (d * 2 ^ i)]) =
            (Inr JUndefined, world_after f w n,
             (tr @ [Invoke, Sleep (d * 2 ^ i)]) @ backoff d (Suc i) n)"
    using Suc.hyps(1)[of "Suc i"] Suc.hyps(2) Suc.prems lt by auto
  show ?case
    using ne lm w' IH wa backoff_step[OF lt, of d]
    by (subst retryRequest_loop.simps) simp
qed

lemma world_after_always_failing: "world_after always_failing 0 k = k"
  by (induction k) (simp_all add: always_failing_def)

lemma attempt_always_failing: "isl (attempt always_failing 0 k)"
  by (simp add: attempt_def always_failing_def)

text \<open>
  C2, as amended. An operation that fails on its first two attempts and succeeds on the
  third, with any \<open>maxRetries \<ge> 3\<close> and any \<open>delay\<close>: \<^verbatim>\<open>retryRequest\<close> returns the
  third attempt's result after the events invoke, sleep \<open>delay\<close>, invoke, sleep
  \<open>2 * delay\<close>, invoke, and nothing more. An operation whose attempts
  \<open>0, \<dots>, n - 1\<close> all fail, with \<open>maxRetries\<close> the whole number \<open>n \<ge> 1\<close>:
  \<^verbatim>\<open>retryRequest\<close> throws what the last of them threw, having invoked the operation \<open>n\<close>
  times, with a sleep of \<open>delay * 2 ^ i\<close> after the failed attempt \<open>i\<close> for every
  attempt but the last.
\<close>

theorem retryRequest_backoff:
  "(3 \<le> maxRetries \<and> f w0 = (Inl e1, w1) \<and> f w1 = (Inl e2, w2) \<and> f w2 = (Inr r, w3)
      \<longrightarrow> retryRequest f maxRetries delay w0 =
            (Inr r, w3, [Invoke, Sleep delay, Invoke, Sleep (2 * delay), Invoke]))
   \<and> (1 \<le> n \<and> (\<forall>k. k < n \<longrightarrow> isl (attempt f w0 k))
      \<longrightarrow> retryRequest f (of_nat n) delay w0 =
            (attempt f w0 (n - 1), world_after f w0 n, backoff delay 0 (n - 1) @ [Invoke])
          \<and> invocations (snd (snd (retryRequest f (of_nat n) delay w0))) = n)"
proof (intro conjI impI)
  assume a: "3 \<le> maxRetries \<and> f w0 = (Inl e1, w1) \<and> f w1 = (Inl e2, w2) \<and> f w2 = (Inr r, w3)"
  then have m: "0 < maxRetries" "1 < maxRetries" "2 < maxRetries"
    "0 \<noteq> maxRetries - 1" "1 \<noteq> maxRetries - 1" "maxRetries \<noteq> 1" "maxRetries \<noteq> 2"
    by linarith+
  from a m have third: "retryRequest_loop f maxRetries delay (Suc (Suc 0)) w2 tr =
      (Inr r, w3, tr @ [Invoke])" for tr
    by (subst retryRequest_loop.simps) simp
  from a m have second: "retryRequest_loop f maxRetries delay (Suc 0) w1 tr =
      (Inr r, w3, tr @ [Invoke, Sleep (2 * delay), Invoke])" for tr
    by (subst retryRequest_loop.simps) (simp add: third mult.commute)
  from a m show "retryRequest f maxRetries delay w0 =
      (Inr r, w3, [Invoke, Sleep delay, Invoke, Sleep (2 * delay), Invoke])"
    unfolding retryRequest_def
    by (subst retryRequest_loop.simps) (simp add: second)
next
  assume b: "1 \<le> n \<and> (\<forall>k. k < n \<longrightarrow> isl (attempt f w0 k))"
  define k where "k = n - 1"
  have k: "Suc k = n"
    using b unfolding k_def by simp
  have fails: "\<forall>j. 0 \<le> j \<and> j \<le> k \<longrightarrow> isl (attempt f w0 j)"
    using b k by auto
  have "retryRequest_loop f (of_nat n) delay 0 (world_after f w0 0) [] =
      (attempt f w0 k, world_after f w0 (Suc k), [] @ backoff delay 0 k @ [Invoke])"
    using k fails by (intro retryRequest_loop_exhausted) simp_all
  then show run: "retryRequest f (of_nat n) delay w0 =
      (attempt f w0 (n - 1), world_after f w0 n, backoff delay 0 (n - 1) @ [Invoke])"
    using k by (simp add: retryRequest_def k_def)
  show "invocations (snd (snd (retryRequest f (of_nat n) delay w0))) = n"
    using k by (simp add: run invocations_backoff k_def)
qed

theorem retryRequest_backoff_witness:
  "retryRequest failing_twice 3 1000 0 =
     (Inr (JStr ''ok''), 3, [Invoke, Sleep 1000, Invoke, Sleep 2000, Invoke])
   \<and> retryRequest always_failing 3 1000 0 =
     (Inl (JError ''Error'' ''attempt 2''), 3, [Invoke, Sleep 1000, Invoke, Sleep 2000, Invoke])
   \<and> invocations (snd (snd (retryRequest always_failing 3 1000 0))) = 3"
proof -
  have t: "failing_twice 0 = (Inl (JError ''Error'' ''timeout''), 1)"
    "failing_twice 1 = (Inl (JError ''Error'' ''timeout''), 2)"
    "failing_twice 2 = (Inr (JStr ''ok''), 3)"
    by (simp_all add: failing_twice_def)
  have first: "retryRequest failing_twice 3 1000 0 =
      (Inr (JStr ''ok''), 3, [Invoke, Sleep 1000, Invoke, Sleep 2000, Invoke])"
    using retryRequest_backoff [where maxRetries = 3 and f = failing_twice and ?w0.0 = 0
        and ?e1.0 = "JError ''Error'' ''timeout''" and ?w1.0 = 1
        and ?e2.0 = "JError ''Error'' ''timeout''" and ?w2.0 = 2
        and r = "JStr ''ok''" and ?w3.0 = 3 and delay = 1000] t
    by simp
  have fails: "\<forall>k. k < 3 \<longrightarrow> isl (attempt always_failing 0 k)"
    by (simp add: attempt_always_failing)
  have last: "attempt always_failing 0 2 = Inl (JError ''Error'' ''attempt 2'')"
    by (simp add: attempt_def world_after_always_failing always_failing_def int_to_string_def
        digits_of.simps)
  have tr: "backoff 1000 0 2 @ [Invoke] = [Invoke, Sleep 1000, Invoke, Sleep 2000, Invoke]"
    by (simp add: backoff_def upt_conv_Cons numeral_2_eq_2)
  have one: "(1 :: nat) \<le> 3" by simp
  from retryRequest_backoff [where n = 3 and f = always_failing and ?w0.0 = 0 and delay = 1000]
    fails one
  have "retryRequest always_failing (of_nat 3) 1000 0 =
      (attempt always_failing 0 (3 - 1), world_after always_failing 0 3,
       backoff 1000 0 (3 - 1) @ [Invoke])
    \<and> invocations (snd (snd (retryRequest always_failing (of_nat 3) 1000 0))) = 3"
    by blast
  then have second: "retryRequest always_failing 3 1000 0 =
      (Inl (JError ''Error'' ''attempt 2''), 3, [Invoke, Sleep 1000, Invoke, Sleep 2000, Invoke])
    \<and> invocations (snd (snd (retryRequest always_failing 3 1000 0))) = 3"
    using last tr by (simp add: world_after_always_failing invocations_def)
  show ?thesis using first second by blast
qed

text \<open>
  C2 as stated fails for a \<open>maxRetries \<ge> 1\<close> that is not a whole number. With
  \<open>maxRetries = 2.5\<close> and an operation that always fails, the counter takes the values
  0, 1 and 2, none of which is \<open>maxRetries - 1 = 1.5\<close>: the operation is invoked three
  times, each failure is followed by a sleep, nothing is thrown, and \<^verbatim>\<open>retryRequest\<close>
  returns \<^verbatim>\<open>undefined\<close>.
\<close>

theorem retryRequest_fractional_counterexample:
  "(1 :: rat) \<le> 5 / 2
   \<and> retryRequest always_failing (5 / 2) 1000 0 =
     (Inr JUndefined, 3, [Invoke, Sleep 1000, Invoke, Sleep 2000, Invoke, Sleep 4000])
   \<and> invocations (snd (snd (retryRequest always_failing (5 / 2) 1000 0))) = 3"
proof -
  have l3: "retryRequest_loop always_failing (5 / 2) 1000 (Suc (Suc (Suc 0))) w tr =
      (Inr JUndefined, w, tr)" for w tr
    by (subst retryRequest_loop.simps) simp
  have l2: "retryRequest_loop always_failing (5 / 2) 1000 (Suc (Suc 0)) w tr =
      (Inr JUndefined, Suc w, tr @ [Invoke, Sleep 4000])" for w tr
    by (subst retryRequest_loop.simps) (simp add: l3 always_failing_def)
  have l1: "retryRequest_loop always_failing (5 / 2) 1000 (Suc 0) w tr =
      (Inr JUndefined, Suc (Suc w), tr @ [Invoke, Sleep 2000, Invoke, Sleep 4000])" for w tr
    by (subst retryRequest_loop.simps) (simp add: l2 always_failing_def)
  have run: "retryRequest always_failing (5 / 2) 1000 0 =
      (Inr JUndefined, 3, [Invoke, Sleep 1000, Invoke, Sleep 2000, Invoke, Sleep 4000])"
    unfolding retryRequest_def
    by (subst retryRequest_loop.simps) (simp add: l1 always_failing_def)
  show ?thesis
    by (simp add: run invocations_def)
qed

text \<open>
  C10. With \<open>maxRetries \<le> 0\<close>, whole or not, the loop body is never entered:
  \<^verbatim>\<open>retryRequest\<close> returns \<^verbatim>\<open>undefined\<close>, throws nothing, leaves the world as it was and
  invokes nothing.
\<close>

theorem retryRequest_no_attempts:
  "maxRetries \<le> 0 \<Longrightarrow> retryRequest f maxRetries delay w = (Inr JUndefined, w, [])"
  by (simp add: retryRequest_def retryRequest_loop.simps)

theorem retryRequest_no_attempts_witness:
  "retryRequest always_failing 0 1000 0 = (Inr JUndefined, 0, [])
   \<and> retryRequest always_failing (- 1) 1000 0 = (Inr JUndefined, 0, [])
   \<and> retryRequest always_failing (- 1 / 2) 1000 0 = (Inr JUndefined, 0, [])"
  using retryRequest_no_attempts [of 0 always_failing 1000 0]
    retryRequest_no_attempts [of "- 1" always_failing 1000 0]
    retryRequest_no_attempts [of "- 1 / 2" always_failing 1000 0]
  by simp

end
